theory Spec2Isabelle
  imports Complex_Main
begin

chapter \<open>Definitions\<close>

section \<open>JavaScript strings, numbers and JSON values\<close>




definition is_space :: "char \<Rightarrow> bool" where
  "is_space c = (let n = (of_char c :: nat) in n = 32 \<or> (9 \<le> n \<and> n \<le> 13))"

definition trimStart :: "string \<Rightarrow> string" where
  "trimStart s = dropWhile is_space s"

definition trim :: "string \<Rightarrow> string" where
  "trim s = rev (dropWhile is_space (rev (dropWhile is_space s)))"

definition upper_char :: "char \<Rightarrow> char" where
  "upper_char c =
     (case map_of (zip ''abcdefghijklmnopqrstuvwxyz'' ''ABCDEFGHIJKLMNOPQRSTUVWXYZ'') c of
        Some u \<Rightarrow> u | None \<Rightarrow> c)"

definition toUpperCase :: "string \<Rightarrow> string" where
  "toUpperCase s = map upper_char s"

definition startsWith :: "string \<Rightarrow> string \<Rightarrow> bool" where
  "startsWith s p = (take (length p) s = p)"

fun str_includes :: "string \<Rightarrow> string \<Rightarrow> bool" where
  "str_includes [] p = (p = [])"
| "str_includes (c # cs) p = (startsWith (c # cs) p \<or> str_includes cs p)"

fun nat_to_string :: "nat \<Rightarrow> string" where
  "nat_to_string n =
     (if n < 10 then [''0123456789'' ! n]
      else nat_to_string (n div 10) @ [''0123456789'' ! (n mod 10)])"

declare nat_to_string.simps [simp del]

definition int_to_string :: "int \<Rightarrow> string" where
  "int_to_string i = (if i < 0 then ''-'' @ nat_to_string (nat (- i)) else nat_to_string (nat i))"

text \<open>
  A JavaScript number is a real number or one of \<open>NaN\<close>, \<open>Infinity\<close>, \<open>-Infinity\<close>; the
  rounding of IEEE doubles is not modelled, so every decimal numeral denotes its exact value.
\<close>

datatype jsnum = Fin real | NaN | PosInf | NegInf

definition isFinite :: "jsnum \<Rightarrow> bool" where
  "isFinite n = (case n of Fin _ \<Rightarrow> True | _ \<Rightarrow> False)"

text \<open>
  \<open>String(n)\<close>. Whole numbers print as their digits, which is what the control flow below
  depends on (\<open>cmdType\<close>, channel numbers). Other values print their decimal expansion, cut
  after 20 places; JavaScript prints the shortest numeral that reads back as the same double
  and uses exponent notation from \<open>1e21\<close> on and below \<open>1e-6\<close>.
\<close>

fun frac_digits :: "nat \<Rightarrow> real \<Rightarrow> string" where
  "frac_digits k r =
     (if k = 0 \<or> r = 0 then []
      else (let d = nat \<lfloor>r * 10\<rfloor>
            in (''0123456789'' ! d) # frac_digits (k - 1) (r * 10 - of_nat d)))"

declare frac_digits.simps [simp del]

definition num_to_string :: "jsnum \<Rightarrow> string" where
  "num_to_string n =
     (case n of
        NaN \<Rightarrow> ''NaN''
      | PosInf \<Rightarrow> ''Infinity''
      | NegInf \<Rightarrow> ''-Infinity''
      | Fin x \<Rightarrow>
          (let a = \<bar>x\<bar>; w = nat \<lfloor>a\<rfloor>; r = a - of_nat w
           in (if x < 0 then ''-'' else '''') @ nat_to_string w
              @ (if r = 0 then [] else ''.'' @ frac_digits 20 r)))"

text \<open>
  \<open>x.toFixed(2)\<close> for a finite \<open>x\<close>: the sign of \<open>x\<close>, then the integer \<open>n\<close> nearest to
  \<open>|x| * 100\<close> (the larger one on a tie) written with two decimals.
\<close>

definition pad2 :: "nat \<Rightarrow> string" where
  "pad2 n = (if n < 10 then ''0'' @ nat_to_string n else nat_to_string n)"

definition toFixed2 :: "real \<Rightarrow> string" where
  "toFixed2 x =
     (if 10 ^ 21 \<le> \<bar>x\<bar> then num_to_string (Fin x)
      else (let n = nat \<lfloor>\<bar>x\<bar> * 100 + 1 / 2\<rfloor>
            in (if x < 0 then ''-'' else '''') @ nat_to_string (n div 100) @ ''.'' @ pad2 (n mod 100)))"






















subsection \<open>The regular expressions of the sources\<close>






section \<open>Channel state and the protocol codec (src/screens/MqttDeviceGridScreen.js)\<close>

subsection \<open>Channels\<close>

text \<open>
  A channel object. The three per-leg readings exist only on objects made by \<open>default3P\<close>
  or written by a three-phase update, so they are optional here.
\<close>

datatype status = UNKNOWN | ON | OFF

record channel =
  chan_id :: int
  status :: status
  current :: string
  current1 :: "string option"
  current2 :: "string option"
  current3 :: "string option"
  rawStatus :: nat
  seen :: bool
  tagName :: string
  currentRating :: jsnum
  sensitivity :: jsnum

definition default1P :: "int \<Rightarrow> channel" where
  "default1P i = \<lparr> chan_id = i, status = UNKNOWN, current = ''-'',
     current1 = None, current2 = None, current3 = None, rawStatus = 0, seen = False,
     tagName = ''Device '' @ int_to_string i, currentRating = Fin 0, sensitivity = Fin 1 \<rparr>"

definition default3P :: "int \<Rightarrow> channel" where
  "default3P i = \<lparr> chan_id = i, status = UNKNOWN, current = ''-'',
     current1 = Some ''-'', current2 = Some ''-'', current3 = Some ''-'', rawStatus = 0,
     seen = False, tagName = ''Device '' @ int_to_string i, currentRating = Fin 0,
     sensitivity = Fin 1 \<rparr>"

text \<open>\<open>prev[id] || (id >= 201 ? default3P(id) : default1P(id))\<close>\<close>

definition default_channel :: "int \<Rightarrow> channel" where
  "default_channel i = (if 201 \<le> i then default3P i else default1P i)"

definition tag_or_default :: "(int \<Rightarrow> channel option) \<Rightarrow> int \<Rightarrow> channel" where
  "tag_or_default prev i = (case prev i of Some c \<Rightarrow> c | None \<Rightarrow> default_channel i)"

subsection \<open>Pure helpers of the codec\<close>


definition formatCurrentA :: "jsnum \<Rightarrow> string" where
  "formatCurrentA n =
     (case n of
        Fin x \<Rightarrow> (if x < 0 \<and> - 0.1 \<le> x then ''0.00'' else toFixed2 x)
      | _ \<Rightarrow> ''-'')"






subsection \<open>Patches\<close>

text \<open>
  A partial update of one channel: the two transient keys \<open>__cur1p\<close> and \<open>__cur3p\<close> and the
  channel fields a patch may carry. \<open>overlay q p\<close> is \<open>{...q, ...p}\<close>. A patch object maps
  channel ids to partial updates; \<open>put\<close> is the helper of that name in \<open>onMessage\<close>, and
  \<open>store[id] = store[id] ? {...store[id], ...partial} : partial\<close> in \<open>enqueueTagPatch\<close> is
  the same operation.
\<close>

record partial =
  cur1p :: "jsnum option"
  cur3p :: "jsnum list option"
  p_status :: "status option"
  p_seen :: "bool option"
  p_tagName :: "string option"
  p_currentRating :: "jsnum option"
  p_sensitivity :: "jsnum option"

definition no_fields :: partial where
  "no_fields = \<lparr> cur1p = None, cur3p = None, p_status = None, p_seen = None, p_tagName = None,
     p_currentRating = None, p_sensitivity = None \<rparr>"

definition spread :: "'a option \<Rightarrow> 'a option \<Rightarrow> 'a option" where
  "spread a b = (case b of Some x \<Rightarrow> Some x | None \<Rightarrow> a)"

definition overlay :: "partial \<Rightarrow> partial \<Rightarrow> partial" where
  "overlay q p = \<lparr> cur1p = spread (cur1p q) (cur1p p), cur3p = spread (cur3p q) (cur3p p),
     p_status = spread (p_status q) (p_status p), p_seen = spread (p_seen q) (p_seen p),
     p_tagName = spread (p_tagName q) (p_tagName p),
     p_currentRating = spread (p_currentRating q) (p_currentRating p),
     p_sensitivity = spread (p_sensitivity q) (p_sensitivity p) \<rparr>"

type_synonym patch = "(int \<times> partial) list"

fun put :: "int \<Rightarrow> partial \<Rightarrow> patch \<Rightarrow> patch" where
  "put i p [] = [(i, p)]"
| "put i p (e # r) = (if fst e = i then (i, overlay (snd e) p) # r else e # put i p r)"



definition status_patch :: "status \<Rightarrow> partial" where
  "status_patch a = no_fields\<lparr> p_status := Some a, p_seen := Some True \<rparr>"

section \<open>The native transport (MqttNativeModule.kt) and the screen state\<close>

text \<open>
  Outbound payloads are kept as the command they encode; the time stamp and the random
  \<open>ackId\<close> of the envelope are left out.
\<close>

datatype command =
    Cmd_power status int
  | Cmd_read string
  | Cmd_fast_interval
  | Cmd_set_name_obj int string
  | Cmd_set_name_arr int string
  | Cmd_set_rating_obj int jsnum jsnum
  | Cmd_set_rating_arr int jsnum jsnum

datatype transport_op = Op_subscribe string int | Op_publish string command int bool

datatype native_error = MQTT_NOT_CONNECTED | MQTT_SUB_FAIL | MQTT_PUB_FAIL

text \<open>
  The Kotlin module holds one \<open>client\<close>, \<open>null\<close> or a Paho client that is connected or not.
  \<open>sub_fails\<close> and \<open>pub_throws\<close> stand for the broker refusing a subscription and for
  \<open>c.publish\<close> throwing. \<open>performed\<close> lists the operations handed to the Paho client,
  \<open>emitted\<close> the \<open>mqtt_status\<close> events sent to JavaScript.
\<close>

record native =
  client :: "bool option"
  sub_fails :: bool
  pub_throws :: bool
  performed :: "transport_op list"
  emitted :: "string list"


definition native_publish ::
  "string \<Rightarrow> command \<Rightarrow> int \<Rightarrow> bool \<Rightarrow> native \<Rightarrow> native \<times> native_error option" where
  "native_publish topic payload qos retained n =
     (if client n \<noteq> Some True then (n, Some MQTT_NOT_CONNECTED)
      else if pub_throws n then (n, Some MQTT_PUB_FAIL)
      else (n\<lparr> performed := performed n @ [Op_publish topic payload (max 0 (min 2 qos)) retained] \<rparr>,
            None))"

definition native_disconnect :: "native \<Rightarrow> native" where
  "native_disconnect n =
     (case client n of
        None \<Rightarrow> n
      | Some _ \<Rightarrow> n\<lparr> client := Some False, emitted := emitted n @ [''DISCONNECTED''] \<rparr>)"

text \<open>
  The state of the screen component: its refs and the React state it reads in callbacks.
  \<open>connectionStatus\<close> stands for both the state and \<open>connectionStatusRef\<close>, which an effect
  copies from the state after every change. \<open>cpid\<close> and \<open>deviceId\<close> are derived from the
  route's topic and fixed. \<open>patchTimer\<close> and \<open>fastTimer\<close> hold the delay of a pending timer,
  \<open>timeouts\<close> the timers started through \<open>safeSetTimeout\<close>. \<open>defaultClient\<close> says whether
  \<open>_defaultClient\<close> of MqttNativeClient.js is set.
\<close>

datatype conn = DISCONNECTED | CONNECTING | CONNECTED | DISCONNECTING

datatype tab = GRID | LIST | THREE

datatype timer_action =
    Act_requestNameBank string
  | Act_nameTimeout int string
  | Act_requestRatingMap
  | Act_ratingTimeout int
  | Act_publishToggle int status

datatype pub_error = No_active_connection | Native_error native_error

record screen =
  cpid :: string
  deviceId :: string
  android :: bool
  connectionStatus :: conn
  tags :: "int \<Rightarrow> channel option"
  pendingPatch :: patch
  patchTimer :: "int option"
  suspendUiUntil :: int
  activeTab :: tab
  toggleLock :: "int \<Rightarrow> int option"
  nameLock :: "int \<Rightarrow> int option"
  pendingName :: "int \<Rightarrow> (string \<times> int) option"
  pendingRating :: "int \<Rightarrow> ((jsnum \<times> jsnum) \<times> int) option"
  didRequestCfg :: bool
  didSendFastInterval :: bool
  fastTimer :: "nat option"
  timeouts :: "(nat \<times> timer_action) list"
  toasts :: "string list"
  defaultClient :: bool
  mqttNative :: native

definition tSlash :: "screen \<Rightarrow> string" where
  "tSlash st = (if cpid st = [] \<or> deviceId st = [] then []
                else ''devices/'' @ cpid st @ ''/'' @ deviceId st @ ''/messages/events/'')"

definition tNoSlash :: "screen \<Rightarrow> string" where
  "tNoSlash st = (if cpid st = [] \<or> deviceId st = [] then []
                  else ''devices/'' @ cpid st @ ''/'' @ deviceId st @ ''/messages/events'')"

definition toast :: "string \<Rightarrow> screen \<Rightarrow> screen" where
  "toast msg st = st\<lparr> toasts := toasts st @ [msg] \<rparr>"


subsection \<open>Publishing\<close>

text \<open>
  A publish returns the new state and the error its promise rejects with, if any.
  \<open>publishMqtt\<close> is the function of MqttNativeClient.js on Android:
  \<open>MqttNative.publish(topic, payload, qos, retained)\<close> on the default client.
\<close>

definition publishMqtt ::
  "string \<Rightarrow> command \<Rightarrow> int \<Rightarrow> bool \<Rightarrow> screen \<Rightarrow> screen \<times> pub_error option" where
  "publishMqtt topic payload qos retained st =
     (if \<not> defaultClient st then (st, Some No_active_connection)
      else (case native_publish topic payload qos retained (mqttNative st) of
              (n, r) \<Rightarrow> (st\<lparr> mqttNative := n \<rparr>, map_option Native_error r)))"


definition publishCfg :: "command \<Rightarrow> screen \<Rightarrow> screen \<times> pub_error option" where
  "publishCfg payload st =
     (if connectionStatus st \<noteq> CONNECTED then (st, None)
      else if tSlash st = [] then (st, None)
      else publishMqtt (tSlash st) payload 1 False st)"

definition publishWrite :: "command \<Rightarrow> screen \<Rightarrow> screen \<times> pub_error option" where
  "publishWrite payload st =
     (if connectionStatus st \<noteq> CONNECTED then (st, None)
      else if tSlash st = [] then (st, None)
      else publishMqtt (tSlash st) payload 0 False st)"

text \<open>The second publish is not reached when the first one rejects.\<close>

definition publishToBothTopics :: "command \<Rightarrow> screen \<Rightarrow> screen \<times> pub_error option" where
  "publishToBothTopics payload st =
     (if tSlash st = [] \<or> tNoSlash st = [] then (st, None)
      else (case publishMqtt (tSlash st) payload 1 False st of
              (st1, Some e) \<Rightarrow> (st1, Some e)
            | (st1, None) \<Rightarrow> publishMqtt (tNoSlash st1) payload 1 False st1))"


definition requestNameMap :: "screen \<Rightarrow> screen" where
  "requestNameMap st =
     (if tSlash st = [] \<and> tNoSlash st = [] then st
      else if cpid st = [] \<or> deviceId st = [] then st
      else (case publishToBothTopics (Cmd_read ''Name1'') st of
              (st1, Some e) \<Rightarrow> st1
            | (st1, None) \<Rightarrow> fst (publishToBothTopics (Cmd_read ''Name2'') st1)))"

definition requestRatingMap :: "screen \<Rightarrow> screen" where
  "requestRatingMap st =
     (if tSlash st = [] \<and> tNoSlash st = [] then st
      else if cpid st = [] \<or> deviceId st = [] then st
      else fst (publishToBothTopics (Cmd_read ''Rating'') st))"

subsection \<open>The patch queue\<close>

definition merge_entry :: "int \<times> partial \<Rightarrow> patch \<Rightarrow> patch" where
  "merge_entry e store = put (fst e) (snd e) store"

definition enqueueTagPatch :: "int \<Rightarrow> patch \<Rightarrow> screen \<Rightarrow> screen" where
  "enqueueTagPatch now patch st =
     (let st1 = st\<lparr> pendingPatch := fold merge_entry patch (pendingPatch st) \<rparr>
      in (case patchTimer st1 of
            Some _ \<Rightarrow> st1
          | None \<Rightarrow>
              (let suspendLeft = suspendUiUntil st1 - now;
                   baseDelay = (if activeTab st1 = GRID then 120 else 150)
               in st1\<lparr> patchTimer := Some (max baseDelay suspendLeft) \<rparr>)))"

text \<open>\<open>toggleLockRef.current.get(id) || 0\<close>\<close>

definition lock_exp :: "(int \<Rightarrow> int option) \<Rightarrow> int \<Rightarrow> int" where
  "lock_exp m i = (case m i of None \<Rightarrow> 0 | Some e \<Rightarrow> e)"

text \<open>
  The body of the flush loop for one entry. The pair carries \<open>out\<close> and whether \<open>out\<close> is a
  new object (\<open>out !== old\<close>).
\<close>

definition apply_cur1p :: "bool \<Rightarrow> partial \<Rightarrow> channel \<times> bool \<Rightarrow> channel \<times> bool" where
  "apply_cur1p isLocked p oc =
     (case cur1p p of
        Some (Fin x) \<Rightarrow>
          ((fst oc)\<lparr> current := formatCurrentA (Fin x), seen := True,
                     status := (if isLocked then status (fst oc) else if x < 0 then OFF else ON) \<rparr>,
           True)
      | _ \<Rightarrow> oc)"

definition apply_cur3p :: "bool \<Rightarrow> partial \<Rightarrow> channel \<times> bool \<Rightarrow> channel \<times> bool" where
  "apply_cur3p isLocked p oc =
     (case cur3p p of
        Some (Fin a # Fin b # Fin c # _) \<Rightarrow>
          ((fst oc)\<lparr> seen := True, current := formatCurrentA (Fin a),
                     current1 := Some (formatCurrentA (Fin a)),
                     current2 := Some (formatCurrentA (Fin b)),
                     current3 := Some (formatCurrentA (Fin c)),
                     status := (if isLocked then status (fst oc)
                                else if a < 0 \<or> b < 0 \<or> c < 0 then OFF else ON) \<rparr>,
           True)
      | _ \<Rightarrow> oc)"

definition has_rest :: "partial \<Rightarrow> bool" where
  "has_rest p = (p_status p \<noteq> None \<or> p_seen p \<noteq> None \<or> p_tagName p \<noteq> None
                 \<or> p_currentRating p \<noteq> None \<or> p_sensitivity p \<noteq> None)"

definition spread_rest :: "partial \<Rightarrow> channel \<Rightarrow> channel" where
  "spread_rest p c =
     c\<lparr> status := (case p_status p of Some v \<Rightarrow> v | None \<Rightarrow> status c),
        seen := (case p_seen p of Some v \<Rightarrow> v | None \<Rightarrow> seen c),
        tagName := (case p_tagName p of Some v \<Rightarrow> v | None \<Rightarrow> tagName c),
        currentRating := (case p_currentRating p of Some v \<Rightarrow> v | None \<Rightarrow> currentRating c),
        sensitivity := (case p_sensitivity p of Some v \<Rightarrow> v | None \<Rightarrow> sensitivity c) \<rparr>"

definition apply_rest :: "partial \<Rightarrow> channel \<times> bool \<Rightarrow> channel \<times> bool" where
  "apply_rest p oc = (if has_rest p then (spread_rest p (fst oc), True) else oc)"

definition flush_entry ::
  "(int \<Rightarrow> int option) \<Rightarrow> int \<Rightarrow> int \<Rightarrow> partial \<Rightarrow> channel \<Rightarrow> channel option" where
  "flush_entry locks now i p old =
     (let isLocked = (now < lock_exp locks i);
          oc = apply_rest p (apply_cur3p isLocked p (apply_cur1p isLocked p (old, False)))
      in if snd oc then Some (fst oc) else None)"

definition flush_step ::
  "(int \<Rightarrow> int option) \<Rightarrow> int \<Rightarrow> (int \<Rightarrow> channel option) \<Rightarrow> int \<times> partial
     \<Rightarrow> (int \<Rightarrow> channel option) \<Rightarrow> (int \<Rightarrow> channel option)" where
  "flush_step locks now prev e nxt =
     (case flush_entry locks now (fst e) (snd e) (tag_or_default prev (fst e)) of
        Some out \<Rightarrow> nxt(fst e \<mapsto> out)
      | None \<Rightarrow> nxt)"

text \<open>The callback of the patch timer, run at time \<open>now\<close>.\<close>

definition flush :: "int \<Rightarrow> screen \<Rightarrow> screen" where
  "flush now st =
     st\<lparr> pendingPatch := [], patchTimer := None,
         tags := fold (flush_step (toggleLock st) now (tags st)) (pendingPatch st) (tags st) \<rparr>"

definition applyTagPatchImmediate :: "int \<Rightarrow> partial \<Rightarrow> screen \<Rightarrow> screen" where
  "applyTagPatchImmediate i p st =
     (let old = tag_or_default (tags st) i;
          out = spread_rest p old
      in if out \<noteq> old then st\<lparr> tags := (tags st)(i \<mapsto> out) \<rparr> else st)"

definition clear_channel :: "int \<Rightarrow> channel \<Rightarrow> channel" where
  "clear_channel k c =
     (if 201 \<le> k \<and> k \<le> 224
      then c\<lparr> status := UNKNOWN, current := ''-'', current1 := Some ''-'', current2 := Some ''-'',
              current3 := Some ''-'', rawStatus := 0, seen := False \<rparr>
      else c\<lparr> status := UNKNOWN, current := ''-'', rawStatus := 0, seen := False \<rparr>)"

definition clearTagsToUnknown :: "screen \<Rightarrow> screen" where
  "clearTagsToUnknown st = st\<lparr> tags := (\<lambda>k. map_option (clear_channel k) (tags st k)) \<rparr>"

subsection \<open>Timers started through \<open>safeSetTimeout\<close>\<close>

definition safeSetTimeout :: "timer_action \<Rightarrow> nat \<Rightarrow> screen \<Rightarrow> screen" where
  "safeSetTimeout act ms st = st\<lparr> timeouts := timeouts st @ [(ms, act)] \<rparr>"

definition clearAllTimeouts :: "screen \<Rightarrow> screen" where
  "clearAllTimeouts st = st\<lparr> timeouts := [] \<rparr>"

subsection \<open>Power toggle\<close>

definition handleToggle :: "int \<Rightarrow> int \<Rightarrow> status \<Rightarrow> screen \<Rightarrow> screen" where
  "handleToggle now i action st =
     (if connectionStatus st \<noteq> CONNECTED then st
      else (let act = (if action = OFF then OFF else ON);
                lockDuration = (if android st then 5000 else 3000);
                st1 = st\<lparr> suspendUiUntil := now + 250, patchTimer := None,
                          toggleLock := (toggleLock st)(i \<mapsto> now + lockDuration) \<rparr>
            in safeSetTimeout (Act_publishToggle i act) 0
                 (applyTagPatchImmediate i (status_patch act) st1)))"


subsection \<open>Keep-alive (\<open>fast interval\<close>) and the connection status\<close>

definition sendFastIntervalOnce :: "screen \<Rightarrow> screen" where
  "sendFastIntervalOnce st =
     (if didSendFastInterval st then st
      else if cpid st = [] \<or> deviceId st = [] then st
      else fst (publishCfg Cmd_fast_interval (st\<lparr> didSendFastInterval := True \<rparr>)))"

definition sendFastIntervalTick :: "screen \<Rightarrow> screen" where
  "sendFastIntervalTick st =
     (if connectionStatus st \<noteq> CONNECTED then st
      else if cpid st = [] \<or> deviceId st = [] then st
      else fst (publishCfg Cmd_fast_interval st))"

definition stopFastIntervalTimer :: "screen \<Rightarrow> screen" where
  "stopFastIntervalTimer st = st\<lparr> fastTimer := None \<rparr>"

definition startFastIntervalTimer :: "screen \<Rightarrow> screen" where
  "startFastIntervalTimer st =
     (case fastTimer st of Some _ \<Rightarrow> st | None \<Rightarrow> st\<lparr> fastTimer := Some 58000 \<rparr>)"

text \<open>
  The callback of the timer armed by \<open>loop()\<close>. While it runs, \<open>fastTimerRef.current\<close> still
  holds the id of the timer that fired.
\<close>

definition fastTimer_fire :: "screen \<Rightarrow> screen" where
  "fastTimer_fire st =
     (case fastTimer st of
        None \<Rightarrow> st
      | Some _ \<Rightarrow>
          (if connectionStatus st \<noteq> CONNECTED then st\<lparr> fastTimer := None \<rparr>
           else (let st1 = sendFastIntervalTick st
                 in (case fastTimer st1 of None \<Rightarrow> st1 | Some _ \<Rightarrow> st1\<lparr> fastTimer := Some 58000 \<rparr>))))"

text \<open>The \<open>onStatus\<close> callback that \<open>connectNow\<close> registers.\<close>

definition onStatus :: "string \<Rightarrow> screen \<Rightarrow> screen" where
  "onStatus msg st =
     (let up = toUpperCase msg
      in if startsWith up ''CONNECTED'' then st\<lparr> connectionStatus := CONNECTING \<rparr>
         else if startsWith up ''SUBSCRIBED'' then
           (let st1 = st\<lparr> connectionStatus := CONNECTED \<rparr>
            in if didRequestCfg st1 then st1
               else requestRatingMap (requestNameMap (startFastIntervalTimer
                      (sendFastIntervalOnce (stopFastIntervalTimer (st1\<lparr> didRequestCfg := True \<rparr>))))))
         else if startsWith up ''DISCONNECTED'' then st\<lparr> connectionStatus := DISCONNECTED \<rparr>
         else if startsWith up ''DISCONNECT'' then st\<lparr> connectionStatus := DISCONNECTING \<rparr>
         else st)"

definition disconnectMqtt :: "screen \<Rightarrow> screen" where
  "disconnectMqtt st =
     (if defaultClient st
      then st\<lparr> defaultClient := False, mqttNative := native_disconnect (mqttNative st) \<rparr>
      else st)"

definition disconnectAndStop :: "screen \<Rightarrow> screen" where
  "disconnectAndStop st =
     (let st1 = stopFastIntervalTimer (clearAllTimeouts st);
          st2 = disconnectMqtt (st1\<lparr> connectionStatus := DISCONNECTING \<rparr>)
      in st2\<lparr> connectionStatus := DISCONNECTED, didRequestCfg := False,
              didSendFastInterval := False \<rparr>)"

definition disconnectNow :: "screen \<Rightarrow> screen" where
  "disconnectNow st =
     (if connectionStatus st = CONNECTING \<or> connectionStatus st = DISCONNECTING then st
      else clearTagsToUnknown (disconnectAndStop st))"

text \<open>\<open>connectNow\<close> up to its call of \<open>connectAndSubscribe\<close>.\<close>

definition connectNow_begin :: "screen \<Rightarrow> screen" where
  "connectNow_begin st =
     (if connectionStatus st \<noteq> DISCONNECTED then st
      else if cpid st = [] \<or> deviceId st = []
        then toast ''Topic invalid: missing cpid/deviceId'' (st\<lparr> connectionStatus := DISCONNECTED \<rparr>)
      else disconnectMqtt ((clearTagsToUnknown (st\<lparr> connectionStatus := CONNECTING \<rparr>))
             \<lparr> didRequestCfg := False, didSendFastInterval := False \<rparr>))"

subsection \<open>Name and rating writes\<close>




definition publishSetRating :: "int \<Rightarrow> int \<Rightarrow> jsnum \<Rightarrow> jsnum \<Rightarrow> screen \<Rightarrow> screen" where
  "publishSetRating now channel cur sens st =
     (if connectionStatus st \<noteq> CONNECTED then st
      else if cpid st = [] \<or> deviceId st = [] then st
      else if \<not> isFinite cur \<or> \<not> isFinite sens then toast ''Invalid current/sensitivity'' st
      else (let st1 = st\<lparr> pendingRating := (pendingRating st)(channel \<mapsto> ((cur, sens), now + 8000)) \<rparr>
            in (case publishWrite (Cmd_set_rating_obj channel cur sens) st1 of
                  (st2, Some e) \<Rightarrow> st2
                | (st2, None) \<Rightarrow>
                    (case publishWrite (Cmd_set_rating_arr channel cur sens) st2 of
                       (st3, Some e) \<Rightarrow> st3
                     | (st3, None) \<Rightarrow>
                         (let st4 = safeSetTimeout Act_requestRatingMap 2500 st3;
                              st5 = toast (''Set Rating C'' @ int_to_string channel) st4
                          in safeSetTimeout (Act_ratingTimeout channel) 8200 st5)))))"




subsection \<open>Decoding an inbound message\<close>















section \<open>Reconnect manager and add-device authentication (src/utils/MqttManager.js)\<close>

text \<open>
  The manager keeps three module-level variables: \<open>currentDevice\<close>, \<open>retryCount\<close> and
  \<open>reconnectTimer\<close>, next to the published \<open>state\<close> object. A pending timer is
  modelled by its delay in milliseconds; \<open>None\<close> is JavaScript's \<open>null\<close>. Of the
  \<open>state\<close> object the flags \<open>connected\<close>, \<open>connecting\<close> and the presence of an
  \<open>error\<close> are kept; the display text \<open>status\<close> plays no part in the control flow.
\<close>

record device =
  d_host :: string
  d_port :: nat
  d_topic :: string

record manager =
  currentDevice :: "device option"
  retryCount :: nat
  reconnectTimer :: "nat option"
  m_connected :: bool
  m_connecting :: bool
  m_error :: bool

definition manager_init :: manager where
  "manager_init = \<lparr> currentDevice = None, retryCount = 0, reconnectTimer = None,
     m_connected = False, m_connecting = False, m_error = False \<rparr>"

definition clearTimer :: "manager \<Rightarrow> manager" where
  "clearTimer m = m\<lparr> reconnectTimer := None \<rparr>"

text \<open>\<open>Math.min(30000, 1000 * Math.pow(2, retryCount))\<close>\<close>

definition reconnect_delay :: "nat \<Rightarrow> nat" where
  "reconnect_delay n = min 30000 (1000 * 2 ^ n)"

definition scheduleReconnect :: "manager \<Rightarrow> manager" where
  "scheduleReconnect m =
     (case currentDevice m of
        None \<Rightarrow> m
      | Some _ \<Rightarrow> (clearTimer m)\<lparr> reconnectTimer := Some (reconnect_delay (retryCount m)) \<rparr>)"

text \<open>
  What the transport answers to \<open>connectAndSubscribe\<close>. On a rejected native connect,
  \<open>MqttClient.connect\<close> first calls the registered \<open>onError\<close> and \<open>onStatus('DISCONNECTED')\<close>
  callbacks and then rethrows; a synchronous throw (module missing, invalid port) reaches the
  caller's \<open>catch\<close> only.
\<close>

datatype conn_outcome = Connected_ok | Rejected | Threw

definition mgr_onStatus :: "bool \<Rightarrow> bool \<Rightarrow> manager \<Rightarrow> manager" where
  "mgr_onStatus ok disc m =
     (let m1 = m\<lparr> m_connected := ok, m_connecting := (\<not> ok \<and> \<not> disc) \<rparr>
      in if disc then scheduleReconnect m1 else m1)"

definition mgr_onError :: "manager \<Rightarrow> manager" where
  "mgr_onError m = scheduleReconnect (m\<lparr> m_error := True \<rparr>)"

text \<open>
  \<open>connectDevice(device, {silent})\<close>; the result pairs the new manager with \<open>True\<close> when the
  promise resolves and \<open>False\<close> when it rejects.
\<close>

definition connectDevice :: "device \<Rightarrow> bool \<Rightarrow> conn_outcome \<Rightarrow> manager \<Rightarrow> manager \<times> bool" where
  "connectDevice dev silent out m =
     (let m1 = clearTimer (m\<lparr> currentDevice := Some dev, retryCount := 0 \<rparr>);
          m2 = m1\<lparr> m_connecting := True, m_connected := False, m_error := False \<rparr>
      in case out of
           Connected_ok \<Rightarrow> (m2\<lparr> m_connected := True, m_connecting := False \<rparr>, True)
         | Rejected \<Rightarrow>
             (let m3 = mgr_onStatus False True (mgr_onError m2);
                  m4 = (if silent then m3 else m3\<lparr> m_error := True \<rparr>)
              in (scheduleReconnect (m4\<lparr> m_connected := False, m_connecting := False \<rparr>), False))
         | Threw \<Rightarrow>
             (let m4 = (if silent then m2 else m2\<lparr> m_error := True \<rparr>)
              in (scheduleReconnect (m4\<lparr> m_connected := False, m_connecting := False \<rparr>), False)))"

text \<open>
  The callback of the reconnect timer: \<open>retryCount += 1; connectDevice(currentDevice, {silent:
  true})\<close>. \<open>connectDevice\<close> returns at once on a missing device.
\<close>

definition reconnect_fire :: "conn_outcome \<Rightarrow> manager \<Rightarrow> manager" where
  "reconnect_fire out m =
     (let m1 = m\<lparr> reconnectTimer := None, retryCount := retryCount m + 1 \<rparr>
      in case currentDevice m1 of
           None \<Rightarrow> m1
         | Some dev \<Rightarrow> fst (connectDevice dev True out m1))"

text \<open>
  A first connect that fails, followed by \<open>n\<close> firings of the reconnect timer that each fail
  again.
\<close>

fun after_failures :: "device \<Rightarrow> conn_outcome \<Rightarrow> nat \<Rightarrow> manager" where
  "after_failures dev out 0 = fst (connectDevice dev False out manager_init)"
| "after_failures dev out (Suc n) = reconnect_fire out (after_failures dev out n)"

subsection \<open>\<open>authenticateForAddDevice\<close>\<close>

text \<open>
  An error object with its \<open>raw\<close> and \<open>message\<close> texts (\<open>raw\<close> empty when absent).
  \<open>mapMqttError\<close> is the function of MqttNativeClient.js that words the message of a
  rejected native connect.
\<close>

record auth_error =
  raw :: string
  message :: string

definition mapMqttError :: "string \<Rightarrow> string" where
  "mapMqttError r =
     (let up = toUpperCase r
      in if str_includes up ''REASONCODE=5'' \<or> str_includes up ''NOT AUTHORIZED''
           then ''Connection failed: username/password required''
         else if str_includes up ''UNRECOGNIZED PACKET''
           then ''Protocol mismatch: port may require TLS or WebSocket.''
         else if str_includes up ''SSL'' \<or> str_includes up ''HANDSHAKE''
           then ''TLS handshake failed: cert/CA/host mismatch.''
         else ''Connection failed'')"

text \<open>
  What one attempt (\<open>disconnect\<close>, \<open>connect\<close>, \<open>subscribe\<close>, under \<open>withTimeout\<close>) ends in, and
  the error \<open>tryOnce\<close> throws for it. The broker is a function from the TLS flag the native
  module receives to that outcome.
\<close>

datatype attempt_result = Subscribed | Native_rejects string | Times_out

definition attempt_error :: "attempt_result \<Rightarrow> auth_error option" where
  "attempt_error r =
     (case r of
        Subscribed \<Rightarrow> None
      | Native_rejects t \<Rightarrow> Some \<lparr> raw = t, message = mapMqttError t \<rparr>
      | Times_out \<Rightarrow>
          Some \<lparr> raw = [], message = ''Auth timeout: check network/host/port/username/password/ACL'' \<rparr>)"

definition detectTlsByPort :: "nat \<Rightarrow> bool" where
  "detectTlsByPort p = (p = 8883 \<or> p = 8812)"

definition DEFAULT_CPID :: string where
  "DEFAULT_CPID = ''51c5c752''"

definition buildEventBaseTopic :: "string \<Rightarrow> string \<Rightarrow> string" where
  "buildEventBaseTopic cpId devId =
     (let c = trim (if cpId = [] then DEFAULT_CPID else cpId); i = trim devId
      in if c = [] \<or> i = [] then [] else ''devices/'' @ c @ ''/'' @ i @ ''/messages/events'')"

definition buildSubscribeTopic :: "string \<Rightarrow> string \<Rightarrow> string" where
  "buildSubscribeTopic cpId devId =
     (let base = buildEventBaseTopic cpId devId in if base = [] then [] else base @ ''/#'')"

definition shouldFlipTls :: "auth_error \<Rightarrow> bool" where
  "shouldFlipTls err =
     (let r = toUpperCase (if raw err \<noteq> [] then raw err else message err)
      in str_includes r ''UNRECOGNIZED PACKET'' \<or> str_includes r ''SSLHANDSHAKE''
         \<or> str_includes r ''HANDSHAKE'' \<or> str_includes r ''EOFEXCEPTION''
         \<or> str_includes r ''CONNECTION CLOSED'')"

record auth_result =
  topicSub :: string
  topicBase :: string
  useTls :: bool

text \<open>\<open>MqttClient.connect\<close>: port 1883 never uses TLS.\<close>

definition effective_tls :: "nat \<Rightarrow> bool \<Rightarrow> bool" where
  "effective_tls p flag = (if p = 1883 then False else flag)"

definition tryOnce :: "(bool \<Rightarrow> attempt_result) \<Rightarrow> nat \<Rightarrow> bool \<Rightarrow> auth_error option" where
  "tryOnce broker p tlsFlag = attempt_error (broker (effective_tls p tlsFlag))"

text \<open>\<open>Number(port) || 1883\<close>\<close>

definition port_or_default :: "nat \<Rightarrow> nat" where
  "port_or_default port = (if port = 0 then 1883 else port)"

text \<open>\<open>typeof useTlsInput === 'boolean' ? useTlsInput : detectTlsByPort(p)\<close>\<close>

definition first_tls :: "nat \<Rightarrow> bool option \<Rightarrow> bool" where
  "first_tls p useTlsInput = (case useTlsInput of Some b \<Rightarrow> b | None \<Rightarrow> detectTlsByPort p)"

text \<open>
  The result lists the TLS flags of the attempts made, in order, and gives the thrown error
  or the returned object.
\<close>

definition authenticateForAddDevice ::
  "(bool \<Rightarrow> attempt_result) \<Rightarrow> string \<Rightarrow> nat \<Rightarrow> string \<Rightarrow> string \<Rightarrow> bool option
     \<Rightarrow> bool list \<times> (auth_error + auth_result)" where
  "authenticateForAddDevice broker host port cpId devId useTlsInput =
     (let p = port_or_default port;
          subTopic = buildSubscribeTopic cpId devId
      in if host = [] then ([], Inl \<lparr> raw = [], message = ''Host is required'' \<rparr>)
         else if subTopic = [] then ([], Inl \<lparr> raw = [], message = ''cpId/deviceId is required'' \<rparr>)
         else (let useTls0 = first_tls p useTlsInput;
                   ok = (\<lambda>tls. Inr \<lparr> topicSub = subTopic, topicBase = buildEventBaseTopic cpId devId,
                                      useTls = tls \<rparr>)
               in (case tryOnce broker p useTls0 of
                     None \<Rightarrow> ([useTls0], ok useTls0)
                   | Some e1 \<Rightarrow>
                       (if p = 1883 then ([useTls0], Inl e1)
                        else if shouldFlipTls e1 then
                          (let flipped = (\<not> useTls0)
                           in (case tryOnce broker p flipped of
                                 None \<Rightarrow> ([useTls0, flipped], ok flipped)
                               | Some e2 \<Rightarrow> ([useTls0, flipped], Inl e2)))
                        else ([useTls0], Inl e1)))))"

section \<open>Client registry and event routing (src/utils/MqttNativeClient.js)\<close>

text \<open>
  \<open>instanceMap\<close> is a JavaScript \<open>Map\<close> from client id to \<open>MqttClient\<close>: a list of entries in
  insertion order. \<open>set\<close> on a present key replaces the value in place, on a new key it
  appends; \<open>delete\<close> removes the entry. Callbacks are named by numbers; a callback set is a
  list without repetition.
\<close>

record mqtt_client =
  clientId :: string
  statusCallbacks :: "nat list"
  messageCallbacks :: "nat list"
  errorCallbacks :: "nat list"

type_synonym registry = "(string \<times> mqtt_client) list"

definition map_set :: "string \<Rightarrow> mqtt_client \<Rightarrow> registry \<Rightarrow> registry" where
  "map_set k v m =
     (if k \<in> set (map fst m) then map (\<lambda>kv. if fst kv = k then (k, v) else kv) m
      else m @ [(k, v)])"

definition map_delete :: "string \<Rightarrow> registry \<Rightarrow> registry" where
  "map_delete k m = filter (\<lambda>kv. fst kv \<noteq> k) m"

text \<open>The constructor, for the client id it generated.\<close>

definition new_MqttClient :: "string \<Rightarrow> registry \<Rightarrow> registry" where
  "new_MqttClient cid m =
     map_set cid \<lparr> clientId = cid, statusCallbacks = [], messageCallbacks = [],
                   errorCallbacks = [] \<rparr> m"

definition set_add :: "nat \<Rightarrow> nat list \<Rightarrow> nat list" where
  "set_add cb cbs = (if cb \<in> set cbs then cbs else cbs @ [cb])"

text \<open>\<open>addCallbacks\<close>, which \<open>connect\<close> performs before it calls the native module.\<close>

definition addCallbacks :: "string \<Rightarrow> nat \<Rightarrow> nat \<Rightarrow> nat \<Rightarrow> registry \<Rightarrow> registry" where
  "addCallbacks cid onSt onMsg onErr m =
     map (\<lambda>kv. if fst kv = cid
                then (fst kv, (snd kv)\<lparr> statusCallbacks := set_add onSt (statusCallbacks (snd kv)),
                                         messageCallbacks := set_add onMsg (messageCallbacks (snd kv)),
                                         errorCallbacks := set_add onErr (errorCallbacks (snd kv)) \<rparr>)
                else kv) m"

text \<open>\<open>disconnect\<close> takes the client out of the map.\<close>

definition client_disconnect :: "string \<Rightarrow> registry \<Rightarrow> registry" where
  "client_disconnect cid m = map_delete cid m"










text \<open>
  Every entry of the map holds the client whose id is its key, as the constructor stores
  \<open>this\<close> under \<open>this.clientId\<close>.
\<close>

definition registry_ok :: "registry \<Rightarrow> bool" where
  "registry_ok m = list_all (\<lambda>kv. clientId (snd kv) = fst kv) m"

section \<open>Notions used in the statements\<close>

text \<open>
  The transport accepts a publish: there is a default client, the native client exists and
  is connected, and the Paho client does not throw.
\<close>

definition transport_up :: "screen \<Rightarrow> bool" where
  "transport_up st = (defaultClient st \<and> client (mqttNative st) = Some True
                      \<and> \<not> pub_throws (mqttNative st))"

text \<open>The state after the native module has performed one more publish.\<close>

definition did_publish :: "string \<Rightarrow> command \<Rightarrow> int \<Rightarrow> screen \<Rightarrow> screen" where
  "did_publish t p q st =
     st\<lparr> mqttNative := (mqttNative st)\<lparr> performed := performed (mqttNative st)
                                              @ [Op_publish t p q False] \<rparr> \<rparr>"





text \<open>
  The state in which the \<open>SUBSCRIBED\<close> handler leaves a fresh connection whose transport
  is up: the status is \<open>CONNECTED\<close>, the keep-alive command went out once, the
  58 second timer is armed, and the two name banks and the rating map were requested
  on both topics.
\<close>

definition after_subscribed :: "screen \<Rightarrow> screen" where
  "after_subscribed st =
     did_publish (tNoSlash st) (Cmd_read ''Rating'') 1
       (did_publish (tSlash st) (Cmd_read ''Rating'') 1
          (did_publish (tNoSlash st) (Cmd_read ''Name2'') 1
             (did_publish (tSlash st) (Cmd_read ''Name2'') 1
                (did_publish (tNoSlash st) (Cmd_read ''Name1'') 1
                   (did_publish (tSlash st) (Cmd_read ''Name1'') 1
                      ((did_publish (tSlash st) Cmd_fast_interval 1
                          (st\<lparr> connectionStatus := CONNECTED, didRequestCfg := True,
                               fastTimer := None, didSendFastInterval := True \<rparr>))
                       \<lparr> fastTimer := Some 58000 \<rparr>))))))"

text \<open>The publishes of the keep-alive command among the operations performed.\<close>

definition fast_interval_sends :: "screen \<Rightarrow> nat" where
  "fast_interval_sends st =
     length (filter (\<lambda>op. case op of Op_publish _ Cmd_fast_interval _ _ \<Rightarrow> True | _ \<Rightarrow> False)
               (performed (mqttNative st)))"

subsection \<open>Sample states\<close>

text \<open>
  A connected screen for gateway \<open>gw1\<close> with channel 17 named and switched on, a
  three-phase channel 201, a toggle lock on channel 5 until time 5000, and three readings
  waiting in the patch queue.
\<close>

definition sample_native :: native where
  "sample_native = \<lparr> client = Some True, sub_fails = False, pub_throws = False, performed = [],
     emitted = [] \<rparr>"

definition sample_screen :: screen where
  "sample_screen = \<lparr> cpid = ''51c5c752'', deviceId = ''gw1'', android = True,
     connectionStatus = CONNECTED,
     tags = [17 \<mapsto> (default1P 17)\<lparr> status := ON, current := ''1.20'', seen := True,
                                     tagName := ''Pump A'', currentRating := Fin 16 \<rparr>,
             5 \<mapsto> (default1P 5)\<lparr> status := ON, seen := True \<rparr>,
             201 \<mapsto> (default3P 201)\<lparr> status := ON, seen := True \<rparr>],
     pendingPatch = [(17, no_fields\<lparr> cur1p := Some (Fin (- 0.05)) \<rparr>),
                     (5, no_fields\<lparr> cur1p := Some (Fin (- 0.05)) \<rparr>),
                     (201, no_fields\<lparr> cur3p := Some [Fin 0.5, Fin (- 0.05), Fin 1] \<rparr>)],
     patchTimer = Some 120, suspendUiUntil = 0, activeTab = GRID,
     toggleLock = [5 \<mapsto> 5000], nameLock = Map.empty, pendingName = Map.empty,
     pendingRating = Map.empty, didRequestCfg = False, didSendFastInterval = False,
     fastTimer = None, timeouts = [], toasts = [], defaultClient = True,
     mqttNative = sample_native \<rparr>"



text \<open>
  A broker on a non-standard port that speaks TLS only: a plain connect is closed during
  the handshake.
\<close>

definition tls_only_broker :: "bool \<Rightarrow> attempt_result" where
  "tls_only_broker tls =
     (if tls then Subscribed
      else Native_rejects ''connect failed uri=tcp://broker:8884 (reasonCode=32109): Connection lost | cause=EOFException: '')"

chapter \<open>Properties\<close>

section \<open>Values of the sample states\<close>

lemma tags_sample:
  "tags sample_screen 17 = Some ((default1P 17)\<lparr> status := ON, current := ''1.20'', seen := True,
                                     tagName := ''Pump A'', currentRating := Fin 16 \<rparr>)"
  "tags sample_screen 5 = Some ((default1P 5)\<lparr> status := ON, seen := True \<rparr>)"
  "tags sample_screen 201 = Some ((default3P 201)\<lparr> status := ON, seen := True \<rparr>)"
  by (simp_all add: sample_screen_def)


lemma sample_ready:
  "connectionStatus sample_screen = CONNECTED" "cpid sample_screen \<noteq> []"
  "deviceId sample_screen \<noteq> []" "transport_up sample_screen"
  "\<not> didRequestCfg sample_screen" "\<not> didSendFastInterval sample_screen"
  "timeouts sample_screen = []" "toasts sample_screen = []"
  "tSlash sample_screen = ''devices/51c5c752/gw1/messages/events/''"
  "performed (mqttNative sample_screen) = []"
  by (simp_all add: sample_screen_def sample_native_def transport_up_def tSlash_def)





lemma subscribed_msg:
  "startsWith (toUpperCase ''SUBSCRIBED devices/51c5c752/gw1/messages/events/#'') ''SUBSCRIBED''"
  by (simp add: startsWith_def toUpperCase_def upper_char_def)


section \<open>Reconnect delay\<close>

text \<open>
  Claim C3 says that the delay before the N-th reconnect attempt is \<open>min(30 s, 1 s * 2^N)\<close>,
  so that consecutive failures wait 1 s, 2 s, 4 s, ..., and that the counter goes back to 0
  only on a successful connect. The formula is the one of \<open>scheduleReconnect\<close>
  (\<open>reconnect_delay 1 = 2000\<close>), but \<open>connectDevice\<close> sets \<open>retryCount\<close> to 0 on every
  call, also on the call the reconnect timer makes after it incremented the counter: after a
  failed connect and one failed reconnect the timer is armed with 1000 ms again and the
  counter is 0.
\<close>

theorem C3_second_delay_is_1s:
  "reconnectTimer (after_failures \<lparr> d_host = ''broker'', d_port = 8883, d_topic = ''t'' \<rparr> Rejected 1) = Some 1000
   \<and> retryCount (after_failures \<lparr> d_host = ''broker'', d_port = 8883, d_topic = ''t'' \<rparr> Rejected 1) = 0
   \<and> reconnect_delay 1 = 2000"
  by (simp add: reconnect_fire_def connectDevice_def scheduleReconnect_def clearTimer_def
      mgr_onStatus_def mgr_onError_def reconnect_delay_def manager_init_def Let_def)

section \<open>Event routing in the client registry\<close>





lemma registry_ok_new: "registry_ok m \<Longrightarrow> registry_ok (new_MqttClient cid m)"
  by (auto simp: registry_ok_def new_MqttClient_def map_set_def list_all_iff)

lemma registry_ok_disconnect: "registry_ok m \<Longrightarrow> registry_ok (client_disconnect cid m)"
  by (auto simp: registry_ok_def client_disconnect_def map_delete_def list_all_iff)

lemma registry_ok_addCallbacks: "registry_ok m \<Longrightarrow> registry_ok (addCallbacks cid a b c m)"
  by (auto simp: registry_ok_def addCallbacks_def list_all_iff)











section \<open>TLS detection in \<open>authenticateForAddDevice\<close>\<close>

lemma auth_plain_port:
  assumes "host \<noteq> []" and "buildSubscribeTopic cpId devId \<noteq> []"
    and "port_or_default port = 1883"
    and "tryOnce broker 1883 (first_tls 1883 useTlsInput) = Some e1"
  shows "authenticateForAddDevice broker host port cpId devId useTlsInput
           = ([first_tls 1883 useTlsInput], Inl e1)"
  using assms by (simp add: authenticateForAddDevice_def Let_def)

lemma auth_flip:
  assumes "host \<noteq> []" and "buildSubscribeTopic cpId devId \<noteq> []"
    and "port_or_default port \<noteq> 1883"
    and "tryOnce broker (port_or_default port) (first_tls (port_or_default port) useTlsInput) = Some e1"
    and "shouldFlipTls e1"
  shows "authenticateForAddDevice broker host port cpId devId useTlsInput
           = ([first_tls (port_or_default port) useTlsInput,
               \<not> first_tls (port_or_default port) useTlsInput],
              case tryOnce broker (port_or_default port)
                     (\<not> first_tls (port_or_default port) useTlsInput) of
                None \<Rightarrow> Inr \<lparr> topicSub = buildSubscribeTopic cpId devId,
                               topicBase = buildEventBaseTopic cpId devId,
                               useTls = \<not> first_tls (port_or_default port) useTlsInput \<rparr>
              | Some e2 \<Rightarrow> Inl e2)"
  using assms by (simp add: authenticateForAddDevice_def Let_def split: option.splits)

text \<open>
  Claim C4: let the first attempt, made on port \<open>p\<close> with the TLS flag \<open>t\<close>, fail with an
  error that matches the protocol-mismatch pattern. On a port other than 1883 exactly one
  more attempt is made, with the flag \<open>\<not> t\<close>; if it succeeds the result reports
  \<open>useTls = \<not> t\<close>, otherwise its error is thrown. On port 1883 no second attempt is made
  and the error of the first is thrown.
\<close>

theorem C4_tls_flip_once:
  assumes host: "host \<noteq> []" and topic: "buildSubscribeTopic cpId devId \<noteq> []"
    and p: "p = port_or_default port" and t: "t = first_tls p useTlsInput"
    and first: "tryOnce broker p t = Some e1"
    and mismatch: "shouldFlipTls e1"
  shows "(p \<noteq> 1883 \<longrightarrow>
            fst (authenticateForAddDevice broker host port cpId devId useTlsInput) = [t, \<not> t]
            \<and> snd (authenticateForAddDevice broker host port cpId devId useTlsInput)
              = (case tryOnce broker p (\<not> t) of
                   None \<Rightarrow> Inr \<lparr> topicSub = buildSubscribeTopic cpId devId,
                                  topicBase = buildEventBaseTopic cpId devId, useTls = \<not> t \<rparr>
                 | Some e2 \<Rightarrow> Inl e2))
       \<and> (p = 1883 \<longrightarrow>
            authenticateForAddDevice broker host port cpId devId useTlsInput = ([t], Inl e1))"
proof (cases "p = 1883")
  case True
  with p t first have "port_or_default port = 1883"
    and "tryOnce broker 1883 (first_tls 1883 useTlsInput) = Some e1" and "t = first_tls 1883 useTlsInput"
    by simp_all
  with auth_plain_port [OF host topic this(1) this(2)] True show ?thesis by simp
next
  case False
  with p t first have a: "port_or_default port \<noteq> 1883"
    and b: "tryOnce broker (port_or_default port) (first_tls (port_or_default port) useTlsInput) = Some e1"
    by simp_all
  show ?thesis
    unfolding t p using auth_flip [OF host topic a b mismatch] a by simp
qed

lemma upper_eof:
  "toUpperCase ''connect failed uri=tcp://broker:8884 (reasonCode=32109): Connection lost | cause=EOFException: ''
     = ''CONNECT FAILED URI=TCP://BROKER:8884 (REASONCODE=32109): CONNECTION LOST | CAUSE=EOFEXCEPTION: ''"
  by (simp add: toUpperCase_def upper_char_def)

lemma tls_only_first:
  "tryOnce tls_only_broker 8884 False
     = Some \<lparr> raw = ''connect failed uri=tcp://broker:8884 (reasonCode=32109): Connection lost | cause=EOFException: '',
              message = ''Connection failed'' \<rparr>"
  by (simp add: tryOnce_def tls_only_broker_def effective_tls_def attempt_error_def mapMqttError_def
      upper_eof startsWith_def Let_def)

lemma tls_only_plain_port:
  "tryOnce tls_only_broker 1883 True
     = Some \<lparr> raw = ''connect failed uri=tcp://broker:8884 (reasonCode=32109): Connection lost | cause=EOFException: '',
              message = ''Connection failed'' \<rparr>"
  by (simp add: tryOnce_def tls_only_broker_def effective_tls_def attempt_error_def mapMqttError_def
      upper_eof startsWith_def Let_def)

lemma tls_only_second: "tryOnce tls_only_broker 8884 True = None"
  by (simp add: tryOnce_def tls_only_broker_def effective_tls_def attempt_error_def)

lemma eof_flips:
  "shouldFlipTls \<lparr> raw = ''connect failed uri=tcp://broker:8884 (reasonCode=32109): Connection lost | cause=EOFException: '',
              message = ''Connection failed'' \<rparr>"
  by (simp add: shouldFlipTls_def upper_eof startsWith_def Let_def)

lemma topic_gw1:
  "buildSubscribeTopic [] ''gw1'' = ''devices/51c5c752/gw1/messages/events/#''"
  "buildEventBaseTopic [] ''gw1'' = ''devices/51c5c752/gw1/messages/events''"
  by (simp_all add: buildSubscribeTopic_def buildEventBaseTopic_def DEFAULT_CPID_def trim_def
      trimStart_def is_space_def Let_def)

theorem C4_tls_flip_once_witness:
  "authenticateForAddDevice tls_only_broker ''broker'' 8884 [] ''gw1'' None
     = ([False, True], Inr \<lparr> topicSub = ''devices/51c5c752/gw1/messages/events/#'',
                               topicBase = ''devices/51c5c752/gw1/messages/events'', useTls = True \<rparr>)
   \<and> authenticateForAddDevice tls_only_broker ''broker'' 1883 [] ''gw1'' (Some True)
     = ([True], Inl \<lparr> raw = ''connect failed uri=tcp://broker:8884 (reasonCode=32109): Connection lost | cause=EOFException: '',
                       message = ''Connection failed'' \<rparr>)"
proof -
  have h: "''broker'' \<noteq> []" and tp: "buildSubscribeTopic [] ''gw1'' \<noteq> []"
    by (simp_all add: topic_gw1)
  have p: "(8884::nat) = port_or_default 8884" and q: "(1883::nat) = port_or_default 1883"
    by (simp_all add: port_or_default_def)
  have t: "False = first_tls 8884 None" and u: "True = first_tls 1883 (Some True)"
    by (simp_all add: first_tls_def detectTlsByPort_def)
  from C4_tls_flip_once [OF h tp p t tls_only_first eof_flips]
  have a: "authenticateForAddDevice tls_only_broker ''broker'' 8884 [] ''gw1'' None
     = ([False, True], Inr \<lparr> topicSub = ''devices/51c5c752/gw1/messages/events/#'',
                               topicBase = ''devices/51c5c752/gw1/messages/events'', useTls = True \<rparr>)"
    by (simp add: tls_only_second topic_gw1 prod_eq_iff)
  from C4_tls_flip_once [OF h tp q u tls_only_plain_port eof_flips]
  have b: "authenticateForAddDevice tls_only_broker ''broker'' 1883 [] ''gw1'' (Some True)
     = ([True], Inl \<lparr> raw = ''connect failed uri=tcp://broker:8884 (reasonCode=32109): Connection lost | cause=EOFException: '',
                       message = ''Connection failed'' \<rparr>)"
    by simp
  from a b show ?thesis by simp
qed

section \<open>Publishing, and the keep-alive command\<close>

lemma did_publish_frame:
  "pendingName (did_publish t p q st) = pendingName st
   \<and> nameLock (did_publish t p q st) = nameLock st
   \<and> toasts (did_publish t p q st) = toasts st
   \<and> timeouts (did_publish t p q st) = timeouts st
   \<and> connectionStatus (did_publish t p q st) = connectionStatus st
   \<and> cpid (did_publish t p q st) = cpid st
   \<and> deviceId (did_publish t p q st) = deviceId st
   \<and> tSlash (did_publish t p q st) = tSlash st
   \<and> tNoSlash (did_publish t p q st) = tNoSlash st
   \<and> fastTimer (did_publish t p q st) = fastTimer st
   \<and> didRequestCfg (did_publish t p q st) = didRequestCfg st
   \<and> didSendFastInterval (did_publish t p q st) = didSendFastInterval st
   \<and> transport_up (did_publish t p q st) = transport_up st
   \<and> performed (mqttNative (did_publish t p q st)) = performed (mqttNative st) @ [Op_publish t p q False]"
  by (simp add: did_publish_def tSlash_def tNoSlash_def transport_up_def)

lemma publishMqtt_up:
  assumes "transport_up st" and "0 \<le> q" and "q \<le> 2"
  shows "publishMqtt t p q False st = (did_publish t p q st, None)"
  using assms by (simp add: publishMqtt_def native_publish_def transport_up_def did_publish_def)


lemma publishCfg_up:
  assumes "connectionStatus st = CONNECTED" and "cpid st \<noteq> []" and "deviceId st \<noteq> []"
    and "transport_up st"
  shows "publishCfg p st = (did_publish (tSlash st) p 1 st, None)"
  using assms by (simp add: publishCfg_def publishMqtt_up tSlash_def)

lemma publishToBothTopics_up:
  assumes "cpid st \<noteq> []" and "deviceId st \<noteq> []" and "transport_up st"
  shows "publishToBothTopics p st =
           (did_publish (tNoSlash st) p 1 (did_publish (tSlash st) p 1 st), None)"
  using assms
  by (simp add: publishToBothTopics_def publishMqtt_up did_publish_frame)
     (simp add: tSlash_def tNoSlash_def)

lemma subscribed_not_connected_prefix:
  "startsWith up ''SUBSCRIBED'' \<Longrightarrow> \<not> startsWith up ''CONNECTED''"
  by (cases up) (auto simp: startsWith_def)

lemma sendFastIntervalOnce_up:
  assumes "connectionStatus st = CONNECTED" and "cpid st \<noteq> []" and "deviceId st \<noteq> []"
    and "transport_up st" and "\<not> didSendFastInterval st"
  shows "sendFastIntervalOnce st =
           did_publish (tSlash st) Cmd_fast_interval 1 (st\<lparr> didSendFastInterval := True \<rparr>)"
proof -
  let ?s = "st\<lparr> didSendFastInterval := True \<rparr>"
  have "connectionStatus ?s = CONNECTED" "cpid ?s \<noteq> []" "deviceId ?s \<noteq> []" "transport_up ?s"
    "tSlash ?s = tSlash st"
    using assms by (simp_all add: transport_up_def tSlash_def)
  from publishCfg_up [OF this(1-4)] this(5) assms show ?thesis
    by (simp add: sendFastIntervalOnce_def)
qed

lemma requestNameMap_up:
  assumes "cpid st \<noteq> []" and "deviceId st \<noteq> []" and "transport_up st"
  shows "requestNameMap st =
           did_publish (tNoSlash st) (Cmd_read ''Name2'') 1
             (did_publish (tSlash st) (Cmd_read ''Name2'') 1
                (did_publish (tNoSlash st) (Cmd_read ''Name1'') 1
                   (did_publish (tSlash st) (Cmd_read ''Name1'') 1 st)))"
proof -
  let ?s = "did_publish (tNoSlash st) (Cmd_read ''Name1'') 1
              (did_publish (tSlash st) (Cmd_read ''Name1'') 1 st)"
  have a: "publishToBothTopics (Cmd_read ''Name1'') st = (?s, None)"
    by (rule publishToBothTopics_up [OF assms])
  have "cpid ?s \<noteq> []" "deviceId ?s \<noteq> []" "transport_up ?s"
    using assms by (simp_all add: did_publish_frame)
  from publishToBothTopics_up [OF this] have b:
    "publishToBothTopics (Cmd_read ''Name2'') ?s =
       (did_publish (tNoSlash st) (Cmd_read ''Name2'') 1
          (did_publish (tSlash st) (Cmd_read ''Name2'') 1 ?s), None)"
    by (simp add: did_publish_frame)
  have "tSlash st \<noteq> []" using assms by (simp add: tSlash_def)
  then show ?thesis using assms(1,2) by (simp add: requestNameMap_def a b)
qed

lemma requestRatingMap_up:
  assumes "cpid st \<noteq> []" and "deviceId st \<noteq> []" and "transport_up st"
  shows "requestRatingMap st =
           did_publish (tNoSlash st) (Cmd_read ''Rating'') 1
             (did_publish (tSlash st) (Cmd_read ''Rating'') 1 st)"
proof -
  have "tSlash st \<noteq> []" using assms by (simp add: tSlash_def)
  then show ?thesis
    using assms(1,2) by (simp add: requestRatingMap_def publishToBothTopics_up [OF assms])
qed

lemma onStatus_subscribed_first:
  assumes sub: "startsWith (toUpperCase msg) ''SUBSCRIBED''"
    and ids: "cpid st \<noteq> []" "deviceId st \<noteq> []" and up: "transport_up st"
    and fresh: "\<not> didRequestCfg st" "\<not> didSendFastInterval st"
  shows "onStatus msg st = after_subscribed st"
proof -
  let ?s1 = "st\<lparr> connectionStatus := CONNECTED, didRequestCfg := True \<rparr>"
  let ?s2 = "stopFastIntervalTimer ?s1"
  have s2: "?s2 = st\<lparr> connectionStatus := CONNECTED, didRequestCfg := True, fastTimer := None \<rparr>"
    by (simp add: stopFastIntervalTimer_def)
  have f2: "connectionStatus ?s2 = CONNECTED" "cpid ?s2 \<noteq> []" "deviceId ?s2 \<noteq> []"
    "transport_up ?s2" "\<not> didSendFastInterval ?s2" "tSlash ?s2 = tSlash st" "tNoSlash ?s2 = tNoSlash st"
    using ids up fresh by (simp_all add: s2 transport_up_def tSlash_def tNoSlash_def)
  let ?s3 = "did_publish (tSlash st) Cmd_fast_interval 1
               (st\<lparr> connectionStatus := CONNECTED, didRequestCfg := True, fastTimer := None,
                    didSendFastInterval := True \<rparr>)"
  have s3: "sendFastIntervalOnce ?s2 = ?s3"
    using sendFastIntervalOnce_up [OF f2(1-5)] f2(6) by (simp add: s2)
  let ?s4 = "?s3\<lparr> fastTimer := Some 58000 \<rparr>"
  have s4: "startFastIntervalTimer ?s3 = ?s4"
    by (simp add: startFastIntervalTimer_def did_publish_def)
  have f4: "cpid ?s4 \<noteq> []" "deviceId ?s4 \<noteq> []" "transport_up ?s4"
    "tSlash ?s4 = tSlash st" "tNoSlash ?s4 = tNoSlash st"
    using ids up by (simp_all add: did_publish_def transport_up_def tSlash_def tNoSlash_def)
  let ?s5 = "requestNameMap ?s4"
  have s5: "?s5 = did_publish (tNoSlash st) (Cmd_read ''Name2'') 1
             (did_publish (tSlash st) (Cmd_read ''Name2'') 1
                (did_publish (tNoSlash st) (Cmd_read ''Name1'') 1
                   (did_publish (tSlash st) (Cmd_read ''Name1'') 1 ?s4)))"
    using requestNameMap_up [OF f4(1-3)] f4(4,5) by simp
  have f5: "cpid ?s5 \<noteq> []" "deviceId ?s5 \<noteq> []" "transport_up ?s5"
    "tSlash ?s5 = tSlash st" "tNoSlash ?s5 = tNoSlash st"
    using f4 by (simp_all add: s5 did_publish_frame)
  have s6: "requestRatingMap ?s5 = after_subscribed st"
    using requestRatingMap_up [OF f5(1-3)] f5(4,5) by (simp add: s5 after_subscribed_def)
  have "onStatus msg st = requestRatingMap (requestNameMap (startFastIntervalTimer
          (sendFastIntervalOnce ?s2)))"
    using sub subscribed_not_connected_prefix [OF sub] fresh by (simp add: onStatus_def Let_def)
  then show ?thesis by (simp only: s3 s4 s6)
qed

lemma fast_sends_did_publish:
  "fast_interval_sends (did_publish t p q st) =
     fast_interval_sends st + (if p = Cmd_fast_interval then 1 else 0)"
  by (cases p) (simp_all add: fast_interval_sends_def did_publish_def)

lemma fast_sends_update:
  "fast_interval_sends (st\<lparr> fastTimer := x \<rparr>) = fast_interval_sends st"
  "fast_interval_sends (st\<lparr> connectionStatus := c \<rparr>) = fast_interval_sends st"
  "fast_interval_sends (st\<lparr> didRequestCfg := b \<rparr>) = fast_interval_sends st"
  "fast_interval_sends (st\<lparr> didSendFastInterval := b \<rparr>) = fast_interval_sends st"
  by (simp_all add: fast_interval_sends_def)

lemma transport_up_update:
  "transport_up (st\<lparr> fastTimer := x \<rparr>) = transport_up st"
  "transport_up (st\<lparr> connectionStatus := c \<rparr>) = transport_up st"
  "transport_up (st\<lparr> didRequestCfg := b \<rparr>) = transport_up st"
  "transport_up (st\<lparr> didSendFastInterval := b \<rparr>) = transport_up st"
  by (simp_all add: transport_up_def)

lemma after_subscribed_facts:
  "fast_interval_sends (after_subscribed st) = fast_interval_sends st + 1"
  "fastTimer (after_subscribed st) = Some 58000"
  "connectionStatus (after_subscribed st) = CONNECTED"
  "didRequestCfg (after_subscribed st)"
  "cpid (after_subscribed st) = cpid st"
  "deviceId (after_subscribed st) = deviceId st"
  "transport_up (after_subscribed st) = transport_up st"
  by (simp_all add: after_subscribed_def did_publish_frame fast_sends_did_publish fast_sends_update
      transport_up_update)

lemma onStatus_subscribed_again:
  assumes "startsWith (toUpperCase msg) ''SUBSCRIBED''" and "didRequestCfg st"
    and "connectionStatus st = CONNECTED"
  shows "onStatus msg st = st"
  using assms subscribed_not_connected_prefix [OF assms(1)]
  by (simp add: onStatus_def Let_def)

lemma fire_connected:
  assumes "connectionStatus st = CONNECTED" and "cpid st \<noteq> []" and "deviceId st \<noteq> []"
    and "transport_up st" and "fastTimer st \<noteq> None"
  shows "fastTimer_fire st = (did_publish (tSlash st) Cmd_fast_interval 1 st)\<lparr> fastTimer := Some 58000 \<rparr>"
  using assms
  by (auto simp: fastTimer_fire_def sendFastIntervalTick_def publishCfg_up did_publish_frame Let_def
      split: option.splits)

lemma fire_not_connected:
  assumes "connectionStatus st \<noteq> CONNECTED"
  shows "fastTimer (fastTimer_fire st) = None \<and> mqttNative (fastTimer_fire st) = mqttNative st"
  using assms by (simp add: fastTimer_fire_def split: option.splits)

lemma fire_many:
  assumes "connectionStatus st = CONNECTED" and "cpid st \<noteq> []" and "deviceId st \<noteq> []"
    and "transport_up st" and "fastTimer st \<noteq> None"
  shows "connectionStatus ((fastTimer_fire ^^ n) st) = CONNECTED
    \<and> cpid ((fastTimer_fire ^^ n) st) = cpid st \<and> deviceId ((fastTimer_fire ^^ n) st) = deviceId st
    \<and> transport_up ((fastTimer_fire ^^ n) st)
    \<and> fastTimer ((fastTimer_fire ^^ n) st) = (if n = 0 then fastTimer st else Some 58000)
    \<and> fast_interval_sends ((fastTimer_fire ^^ n) st) = fast_interval_sends st + n"
proof (induction n)
  case 0
  show ?case using assms by simp
next
  case (Suc n)
  let ?s = "(fastTimer_fire ^^ n) st"
  from Suc assms have h: "connectionStatus ?s = CONNECTED" "cpid ?s \<noteq> []" "deviceId ?s \<noteq> []"
    "transport_up ?s" "fastTimer ?s \<noteq> None"
    by (simp_all split: if_splits)
  from fire_connected [OF h] Suc show ?case
    by (simp add: did_publish_frame fast_sends_did_publish fast_sends_update transport_up_update)
qed

lemma disconnectAndStop_timer:
  "fastTimer (disconnectAndStop st) = None \<and> connectionStatus (disconnectAndStop st) = DISCONNECTED
   \<and> timeouts (disconnectAndStop st) = []"
  by (simp add: disconnectAndStop_def disconnectMqtt_def stopFastIntervalTimer_def
      clearAllTimeouts_def Let_def)

text \<open>
  Claim C5: when a fresh connection reaches \<open>CONNECTED\<close> (the \<open>SUBSCRIBED\<close> status arrives)
  the keep-alive command is sent once at once and the timer of 58000 ms is armed; a
  repeated \<open>SUBSCRIBED\<close> status on the same connection changes nothing, so that the
  immediate send happens once per connection; each of \<open>n\<close> firings of the timer while
  connected sends the command once more and leaves the timer armed. A firing in a state
  \<open>s\<close> that is not \<open>CONNECTED\<close> sends nothing and cancels the timer, and so does the
  disconnect.
\<close>

theorem C5_keep_alive:
  assumes sub: "startsWith (toUpperCase msg) ''SUBSCRIBED''"
    and ids: "cpid st \<noteq> []" "deviceId st \<noteq> []" and up: "transport_up st"
    and fresh: "\<not> didRequestCfg st" "\<not> didSendFastInterval st"
    and left: "connectionStatus s \<noteq> CONNECTED"
  shows "connectionStatus (onStatus msg st) = CONNECTED
    \<and> fast_interval_sends (onStatus msg st) = fast_interval_sends st + 1
    \<and> fastTimer (onStatus msg st) = Some 58000
    \<and> onStatus msg (onStatus msg st) = onStatus msg st
    \<and> fast_interval_sends ((fastTimer_fire ^^ n) (onStatus msg st)) = fast_interval_sends st + 1 + n
    \<and> fastTimer ((fastTimer_fire ^^ n) (onStatus msg st)) = Some 58000
    \<and> fastTimer (fastTimer_fire s) = None
    \<and> mqttNative (fastTimer_fire s) = mqttNative s
    \<and> fastTimer (disconnectAndStop (onStatus msg st)) = None"
proof -
  let ?s1 = "onStatus msg st"
  have e: "?s1 = after_subscribed st"
    by (rule onStatus_subscribed_first [OF sub ids up fresh])
  have h: "connectionStatus ?s1 = CONNECTED" "cpid ?s1 \<noteq> []" "deviceId ?s1 \<noteq> []"
    "transport_up ?s1" "fastTimer ?s1 \<noteq> None" "didRequestCfg ?s1"
    using ids up by (simp_all add: e after_subscribed_facts)
  have again: "onStatus msg ?s1 = ?s1"
    by (rule onStatus_subscribed_again [OF sub h(6) h(1)])
  from fire_many [OF h(1-5), of n] fire_not_connected [OF left] disconnectAndStop_timer [of ?s1]
    again
  show ?thesis
    by (simp add: e after_subscribed_facts)
qed

theorem C5_keep_alive_witness:
  "startsWith (toUpperCase ''SUBSCRIBED devices/51c5c752/gw1/messages/events/#'') ''SUBSCRIBED''
   \<and> transport_up sample_screen
   \<and> connectionStatus (sample_screen\<lparr> connectionStatus := DISCONNECTED, fastTimer := Some 58000 \<rparr>)
        \<noteq> CONNECTED
   \<and> fast_interval_sends (onStatus ''SUBSCRIBED devices/51c5c752/gw1/messages/events/#'' sample_screen) = 1
   \<and> fastTimer (onStatus ''SUBSCRIBED devices/51c5c752/gw1/messages/events/#'' sample_screen) = Some 58000
   \<and> fast_interval_sends ((fastTimer_fire ^^ 3)
        (onStatus ''SUBSCRIBED devices/51c5c752/gw1/messages/events/#'' sample_screen)) = 4
   \<and> fastTimer (fastTimer_fire (sample_screen\<lparr> connectionStatus := DISCONNECTED,
                                                  fastTimer := Some 58000 \<rparr>)) = None
   \<and> mqttNative (fastTimer_fire (sample_screen\<lparr> connectionStatus := DISCONNECTED,
                                                   fastTimer := Some 58000 \<rparr>)) = sample_native"
proof -
  have l: "connectionStatus (sample_screen\<lparr> connectionStatus := DISCONNECTED, fastTimer := Some 58000 \<rparr>)
             \<noteq> CONNECTED"
    by simp
  have z: "fast_interval_sends sample_screen = 0"
    by (simp add: fast_interval_sends_def sample_ready)
  have m: "mqttNative (sample_screen\<lparr> connectionStatus := DISCONNECTED, fastTimer := Some 58000 \<rparr>)
             = sample_native"
    by (simp add: sample_screen_def)
  from C5_keep_alive [OF subscribed_msg sample_ready(2,3,4,5,6) l, where n = 3] subscribed_msg
    sample_ready(4) l z m
  show ?thesis by simp
qed



section \<open>The round trip of a name write\<close>























section \<open>The flush of the patch queue\<close>











lemma spread_absorb: "spread (spread a b) b = spread a b"
  by (simp add: spread_def split: option.splits)

lemma spread_same: "spread b b = b"
  by (simp add: spread_def split: option.splits)

lemma overlay_absorb: "overlay (overlay q p) p = overlay q p"
  by (simp add: overlay_def spread_absorb)

lemma overlay_same: "overlay p p = p"
  by (simp add: overlay_def spread_same)

lemma map_of_put:
  "map_of (put i p S) j =
     (if j = i then Some (case map_of S i of Some q \<Rightarrow> overlay q p | None \<Rightarrow> p) else map_of S j)"
  by (induction S) auto

lemma put_absorbed:
  "map_of S i = Some v \<Longrightarrow> overlay v p = v \<Longrightarrow> put i p S = S"
  by (induction S) (auto split: if_splits)

lemma merge_entry_pair: "merge_entry (i, p) S = put i p S"
  by (simp add: merge_entry_def)

lemma map_of_merge_other:
  "i \<notin> fst ` set P \<Longrightarrow> map_of (fold merge_entry P S) i = map_of S i"
  by (induction P arbitrary: S) (auto simp: merge_entry_pair map_of_put)

lemma merged_absorbs:
  assumes "distinct (map fst P)" and "(i, p) \<in> set P"
  shows "\<exists>v. map_of (fold merge_entry P S) i = Some v \<and> overlay v p = v"
  using assms
proof (induction P arbitrary: S)
  case Nil
  then show ?case by simp
next
  case (Cons e P)
  show ?case
  proof (cases "e = (i, p)")
    case True
    with Cons.prems have "i \<notin> fst ` set P" by auto
    then have "map_of (fold merge_entry P (merge_entry e S)) i = map_of (merge_entry e S) i"
      by (rule map_of_merge_other)
    with True show ?thesis
      by (auto simp: merge_entry_pair map_of_put overlay_absorb overlay_same split: option.splits)
  next
    case False
    with Cons.prems have "(i, p) \<in> set P" and "distinct (map fst P)" by auto
    from Cons.IH [OF this(2) this(1)] show ?thesis by simp
  qed
qed

lemma merge_absorbed:
  "(\<And>i p. (i, p) \<in> set P \<Longrightarrow> \<exists>v. map_of S i = Some v \<and> overlay v p = v)
     \<Longrightarrow> fold merge_entry P S = S"
proof (induction P)
  case Nil
  then show ?case by simp
next
  case (Cons e P)
  obtain i p where e: "e = (i, p)" by (cases e)
  from Cons.prems [of i p] e obtain v where "map_of S i = Some v" and "overlay v p = v" by auto
  then have "merge_entry e S = S" using e by (simp add: merge_entry_pair put_absorbed)
  moreover have "fold merge_entry P S = S" using Cons.prems by (intro Cons.IH) auto
  ultimately show ?case by simp
qed

lemma merge_twice:
  assumes "distinct (map fst P)"
  shows "fold merge_entry P (fold merge_entry P S) = fold merge_entry P S"
  by (rule merge_absorbed) (rule merged_absorbs [OF assms])

lemma enqueue_timer_pending: "patchTimer (enqueueTagPatch now P st) \<noteq> None"
  by (simp add: enqueueTagPatch_def Let_def split: option.splits)

lemma enqueue_when_pending:
  "patchTimer st \<noteq> None \<Longrightarrow>
     enqueueTagPatch now P st = st\<lparr> pendingPatch := fold merge_entry P (pendingPatch st) \<rparr>"
  by (auto simp: enqueueTagPatch_def Let_def split: option.splits)

lemma enqueue_pendingPatch:
  "pendingPatch (enqueueTagPatch now P st) = fold merge_entry P (pendingPatch st)"
  by (simp add: enqueueTagPatch_def Let_def split: option.splits)

text \<open>
  Claim C8: enqueuing a patch \<open>P\<close> (an object, so its keys are distinct) a second time
  before the flush leaves the state as the first enqueue made it, whatever the state \<open>st\<close>
  before; the flush therefore gives the same channel map, and the same state, as after
  one enqueue.
\<close>

theorem C8_patch_idempotent:
  assumes "distinct (map fst P)"
  shows "enqueueTagPatch tb P (enqueueTagPatch ta P st) = enqueueTagPatch ta P st
     \<and> flush tf (enqueueTagPatch tb P (enqueueTagPatch ta P st))
         = flush tf (enqueueTagPatch ta P st)"
proof -
  let ?s1 = "enqueueTagPatch ta P st"
  have "enqueueTagPatch tb P ?s1 = ?s1\<lparr> pendingPatch := fold merge_entry P (pendingPatch ?s1) \<rparr>"
    by (rule enqueue_when_pending) (rule enqueue_timer_pending)
  also have "fold merge_entry P (pendingPatch ?s1) = pendingPatch ?s1"
    by (simp add: enqueue_pendingPatch merge_twice [OF assms])
  finally have "enqueueTagPatch tb P ?s1 = ?s1" by simp
  then show ?thesis by simp
qed

theorem C8_patch_idempotent_witness:
  "distinct (map fst (pendingPatch sample_screen))
   \<and> enqueueTagPatch 20 (pendingPatch sample_screen) (enqueueTagPatch 10 (pendingPatch sample_screen) sample_screen)
       = enqueueTagPatch 10 (pendingPatch sample_screen) sample_screen
   \<and> flush 1000 (enqueueTagPatch 20 (pendingPatch sample_screen)
                    (enqueueTagPatch 10 (pendingPatch sample_screen) sample_screen))
       = flush 1000 (enqueueTagPatch 10 (pendingPatch sample_screen) sample_screen)"
proof -
  have d: "distinct (map fst (pendingPatch sample_screen))"
    by (simp add: sample_screen_def)
  from d C8_patch_idempotent [OF d, where tb = 20 and ta = 10 and st = sample_screen and tf = 1000] show ?thesis by simp
qed

section \<open>Resetting the channels\<close>

lemma clear_channel_frame:
  "tagName (clear_channel k c) = tagName c \<and> currentRating (clear_channel k c) = currentRating c
   \<and> sensitivity (clear_channel k c) = sensitivity c \<and> chan_id (clear_channel k c) = chan_id c"
  by (simp add: clear_channel_def)

lemma clear_channel_reset:
  "status (clear_channel k c) = UNKNOWN \<and> current (clear_channel k c) = ''-''
   \<and> rawStatus (clear_channel k c) = 0 \<and> \<not> seen (clear_channel k c)"
  by (simp add: clear_channel_def)

lemma clear_channel_legs:
  "current1 (clear_channel k c) = (if 201 \<le> k \<and> k \<le> 224 then Some ''-'' else current1 c)
   \<and> current2 (clear_channel k c) = (if 201 \<le> k \<and> k \<le> 224 then Some ''-'' else current2 c)
   \<and> current3 (clear_channel k c) = (if 201 \<le> k \<and> k \<le> 224 then Some ''-'' else current3 c)"
  by (simp add: clear_channel_def)

text \<open>
  Claim C10: \<open>clearTagsToUnknown\<close> keeps the set of channels of the map and changes nothing
  of the state but the map. Of a channel \<open>k\<close> that is present it keeps \<open>tagName\<close>,
  \<open>currentRating\<close>, \<open>sensitivity\<close> and \<open>id\<close>, resets \<open>status\<close>, \<open>current\<close>, \<open>rawStatus\<close> and
  \<open>seen\<close>, and resets \<open>current1\<close>, \<open>current2\<close>, \<open>current3\<close> for a three-phase id only.
\<close>

theorem C10_clear_frame:
  assumes "tags st k = Some c"
  shows "dom (tags (clearTagsToUnknown st)) = dom (tags st)
    \<and> (\<exists>c'. tags (clearTagsToUnknown st) k = Some c'
          \<and> tagName c' = tagName c \<and> currentRating c' = currentRating c
          \<and> sensitivity c' = sensitivity c \<and> chan_id c' = chan_id c
          \<and> status c' = UNKNOWN \<and> current c' = ''-'' \<and> rawStatus c' = 0 \<and> \<not> seen c'
          \<and> current1 c' = (if 201 \<le> k \<and> k \<le> 224 then Some ''-'' else current1 c)
          \<and> current2 c' = (if 201 \<le> k \<and> k \<le> 224 then Some ''-'' else current2 c)
          \<and> current3 c' = (if 201 \<le> k \<and> k \<le> 224 then Some ''-'' else current3 c))
    \<and> clearTagsToUnknown st = st\<lparr> tags := tags (clearTagsToUnknown st) \<rparr>"
proof -
  have d: "dom (tags (clearTagsToUnknown st)) = dom (tags st)"
    by (auto simp: clearTagsToUnknown_def dom_def)
  have v: "tags (clearTagsToUnknown st) k = Some (clear_channel k c)"
    using assms by (simp add: clearTagsToUnknown_def)
  have r: "clearTagsToUnknown st = st\<lparr> tags := tags (clearTagsToUnknown st) \<rparr>"
    by (simp add: clearTagsToUnknown_def)
  show ?thesis
    using d v r clear_channel_frame [of k c] clear_channel_reset [of k c] clear_channel_legs [of k c]
    by simp
qed

theorem C10_clear_frame_witness:
  "tags sample_screen 17 = Some ((default1P 17)\<lparr> status := ON, current := ''1.20'', seen := True,
                                     tagName := ''Pump A'', currentRating := Fin 16 \<rparr>)
   \<and> dom (tags (clearTagsToUnknown sample_screen)) = {5, 17, 201}
   \<and> (\<exists>c'. tags (clearTagsToUnknown sample_screen) 17 = Some c' \<and> tagName c' = ''Pump A''
          \<and> currentRating c' = Fin 16 \<and> sensitivity c' = Fin 1 \<and> status c' = UNKNOWN
          \<and> current c' = ''-'' \<and> current1 c' = None)"
proof -
  have "dom (tags sample_screen) = {5, 17, 201}"
    by (auto simp: sample_screen_def dom_def split: if_splits)
  with C10_clear_frame [OF tags_sample(1)] tags_sample(1) show ?thesis
    by (auto simp: default1P_def)
qed

section \<open>Decoding a current map\<close>


















end
